theory Spec2Isabelle
  imports Main
begin

section \<open>Values of the service\<close>

text \<open>
  The service of \<^verbatim>\<open>machine-learning/app/main.py\<close> routes inference requests to
  models and keeps named vector indices in the module-level dictionary
  \<^verbatim>\<open>vector_stores\<close>. This theory embeds its functions one by one.

  A numpy array is its shape and its elements in row-major order. The element type is a
  parameter: no function of the service computes with the numbers.
\<close>

record 'a ndarray =
  shape :: "nat list"
  data :: "'a list"

text \<open>
  Errors are values. \<^verbatim>\<open>HTTPException(status, detail)\<close> keeps its status code; the
  detail text is a message for the client and is left out.
\<close>

datatype exn =
    HTTPException nat
  | TypeError
  | KeyError
  | IndexError
  | AttributeError
  | OSError
  | InvalidProtobuf
  | BadZipFile
  | NoSuchFile
  | ModelError string

text \<open>\<^verbatim>\<open>a.shape[i]\<close>: a tuple read out of range raises IndexError.\<close>

definition shape_at :: "'a ndarray \<Rightarrow> nat \<Rightarrow> exn + nat" where
  "shape_at a i = (if i < length (shape a) then Inr (shape a ! i) else Inl IndexError)"

text \<open>\<^verbatim>\<open>np.expand_dims(a, 0)\<close>: a new first axis of length one, the elements as they are.\<close>

definition expand_dims0 :: "'a ndarray \<Rightarrow> 'a ndarray" where
  "expand_dims0 a = a\<lparr>shape := 1 # shape a\<rparr>"

section \<open>Input validation\<close>

text \<open>
  \<^verbatim>\<open>validate_embeddings\<close> (lines 31-39). Its argument is the array that
  \<^verbatim>\<open>np.array(embeddings)\<close> yields.
\<close>

definition validate_embeddings :: "'a ndarray \<Rightarrow> exn + 'a ndarray" where
  "validate_embeddings embeddings =
     (case (if length (shape embeddings) = 1 then Inr (expand_dims0 embeddings)
            else if length (shape embeddings) \<noteq> 2 then Inl (HTTPException 400)
            else Inr embeddings) of
        Inl e \<Rightarrow> Inl e
      | Inr embeddings' \<Rightarrow>
          (case shape_at embeddings' 1 of
             Inl e \<Rightarrow> Inl e
           | Inr c \<Rightarrow> if c < 10 then Inl (HTTPException 400) else Inr embeddings'))"

section \<open>Dynamic values, models and the state of the process\<close>

text \<open>
  Modelled from the spec: the similarity-search library (\<^verbatim>\<open>faiss\<close>) is external to
  the repository. A vector index is "a named structure supporting add-with-ID and
  k-nearest-neighbor search over fixed-dimension float vectors": it has a dimensionality
  \<^verbatim>\<open>d\<close> and holds vectors with their IDs.
\<close>

record 'a index =
  d :: nat
  ids :: "string list"
  vectors :: "'a list list"

datatype json =
    JNull
  | JBool bool
  | JInt int
  | JStr string
  | JArr "json list"
  | JObj "(string \<times> json) list"

type_synonym kwargs = "(string \<times> json) list"

text \<open>
  Python values are dynamic. Calling a function declared \<^verbatim>\<open>async def\<close> runs none of its
  body: the call binds the arguments and returns a coroutine object, and the body runs
  only when that object is awaited. A coroutine object is the name of its function with
  the arguments bound.
\<close>

datatype 'a pyval =
    PNone
  | PStr string
  | PBytes "nat list"
  | PInt int
  | PStrList "string list"
  | PArray "'a ndarray"
  | PIndex "'a index"
  | PCoroutine string "'a pyval list" kwargs

text \<open>
  Modelled from the spec: \<^verbatim>\<open>InferenceModel\<close> (\<^verbatim>\<open>app/models/base.py\<close>) is not under
  \<^verbatim>\<open>src/\<close>. A model handle is "an object wrapping a loaded machine-learning model
  exposing load/predict/configure operations", unloaded until a load succeeds. What the
  environment does is data of the handle: \<open>load_outcomes\<close> lists the outcomes of the
  coming calls of \<^verbatim>\<open>load()\<close> (\<open>None\<close> for success, no entry left for success too), and
  \<open>predict_impl\<close> is the network. \<open>calls\<close> records every method call on the handle, in
  order.
\<close>

datatype 'a call = Load | ClearCache | Configure kwargs | Predict "'a pyval"

record 'a model =
  model_name :: string
  model_type :: string
  loaded :: bool
  load_outcomes :: "exn option list"
  calls :: "'a call list"
  config :: kwargs
  predict_impl :: "kwargs \<Rightarrow> 'a pyval \<Rightarrow> exn + 'a ndarray"

definition load :: "'a model \<Rightarrow> exn option \<times> 'a model" where
  "load m =
     (case load_outcomes m of
        [] \<Rightarrow> (None, m\<lparr>loaded := True, calls := calls m @ [Load]\<rparr>)
      | r # rest \<Rightarrow>
          (case r of
             None \<Rightarrow> (None, m\<lparr>loaded := True, load_outcomes := rest, calls := calls m @ [Load]\<rparr>)
           | Some e \<Rightarrow> (Some e, m\<lparr>load_outcomes := rest, calls := calls m @ [Load]\<rparr>)))"

definition clear_cache :: "'a model \<Rightarrow> 'a model" where
  "clear_cache m = m\<lparr>calls := calls m @ [ClearCache]\<rparr>"

text \<open>
  The state of the process: the dictionary \<^verbatim>\<open>vector_stores\<close> (a Python dictionary
  holds whatever is assigned to it), the model cache (\<^verbatim>\<open>app.state.model_cache\<close>, keyed by
  model name, model type and options as in the spec's data model) and the thread pool
  (\<open>None\<close> when \<^verbatim>\<open>request_threads\<close> is not positive). \<open>unawaited\<close> is not a variable of
  the program: it lists the coroutine objects that were created and never awaited, in
  the order of their creation (Python reports each as "coroutine ... was never awaited").
\<close>

record 'a world =
  vector_stores :: "string \<rightharpoonup> 'a pyval"
  model_cache :: "(string \<times> string \<times> kwargs) \<rightharpoonup> 'a model"
  thread_pool :: "nat option"
  unawaited :: "'a pyval list"

text \<open>
  What the service calls and this repository does not define: the JSON parser
  (\<open>None\<close> is \<^verbatim>\<open>JSONDecodeError\<close>).
\<close>

record externals =
  orjson_loads :: "string \<Rightarrow> json option"

section \<open>The coroutine functions\<close>

text \<open>
  \<^verbatim>\<open>_predict\<close> (lines 202-207), \<^verbatim>\<open>_search\<close> (lines 196-199), \<^verbatim>\<open>_add\<close> (lines 192-193)
  and \<^verbatim>\<open>_create\<close> (lines 210-219) are declared \<^verbatim>\<open>async def\<close>. The service calls them
  only through \<^verbatim>\<open>run\<close>, which does not await what they return, so of each of them only
  the parameter list takes part in a request: its required parameters, in order, and
  whether it takes further keyword arguments (\<^verbatim>\<open>**options\<close>).
\<close>

record async_def =
  def_name :: string
  def_params :: "string list"
  def_var_kw :: bool

definition u_predict :: async_def where
  "u_predict = \<lparr>def_name = ''_predict'',
     def_params = [''model_name'', ''model_type'', ''inputs''], def_var_kw = True\<rparr>"

definition u_search :: async_def where
  "u_search = \<lparr>def_name = ''_search'',
     def_params = [''index_name'', ''embeddings'', ''k''], def_var_kw = False\<rparr>"

definition u_add :: async_def where
  "u_add = \<lparr>def_name = ''_add'',
     def_params = [''index_name'', ''embedding_ids'', ''embeddings''], def_var_kw = False\<rparr>"

definition u_create :: async_def where
  "u_create = \<lparr>def_name = ''_create'',
     def_params = [''embedding_ids'', ''embeddings''], def_var_kw = False\<rparr>"

text \<open>
  The binding of a call \<^verbatim>\<open>f(*args, **kwargs)\<close>: no more positional arguments than
  parameters; no keyword that names a parameter already given by position, and none
  that names no parameter unless the function takes \<^verbatim>\<open>**options\<close>; and every parameter
  not given by position given by keyword. A call that does not bind is a TypeError.
\<close>

definition binds :: "async_def \<Rightarrow> 'a pyval list \<Rightarrow> kwargs \<Rightarrow> bool" where
  "binds f args kwargs =
     (length args \<le> length (def_params f)
      \<and> list_all (\<lambda>key. key \<notin> set (take (length args) (def_params f))
                       \<and> (key \<in> set (def_params f) \<or> def_var_kw f))
          (map fst kwargs)
      \<and> list_all (\<lambda>p. p \<in> set (map fst kwargs)) (drop (length args) (def_params f)))"

definition call_async ::
  "async_def \<Rightarrow> 'a pyval list \<Rightarrow> kwargs \<Rightarrow> 'a world \<Rightarrow> (exn + 'a pyval) \<times> 'a world" where
  "call_async f args kwargs w =
     (if binds f args kwargs
      then (Inr (PCoroutine (def_name f) args kwargs),
            w\<lparr>unawaited := unawaited w @ [PCoroutine (def_name f) args kwargs]\<rparr>)
      else (Inl TypeError, w))"

section \<open>The dispatcher\<close>

text \<open>
  \<^verbatim>\<open>run\<close> (lines 164-169). Inline it returns \<^verbatim>\<open>func(*args, **kwargs)\<close>, and on the
  thread pool the result of \<^verbatim>\<open>func(*args)\<close> after \<^verbatim>\<open>partial\<close> has bound the keyword
  arguments: in both cases the value of the call, which for a coroutine function is the
  coroutine object. \<^verbatim>\<open>run\<close> does not await it. Its own first parameter is named
  \<^verbatim>\<open>func\<close>, so a keyword argument of that name is a TypeError at the call of \<^verbatim>\<open>run\<close>.
\<close>

definition partial :: "async_def \<Rightarrow> kwargs \<Rightarrow> async_def \<times> kwargs" where
  "partial func kwargs = (func, kwargs)"

definition run_in_executor ::
  "async_def \<times> kwargs \<Rightarrow> 'a pyval list \<Rightarrow> 'a world \<Rightarrow> (exn + 'a pyval) \<times> 'a world" where
  "run_in_executor func args w = call_async (fst func) args (snd func) w"

definition run ::
  "async_def \<Rightarrow> 'a pyval list \<Rightarrow> kwargs \<Rightarrow> 'a world \<Rightarrow> (exn + 'a pyval) \<times> 'a world" where
  "run func args kwargs w =
     (if ''func'' \<in> set (map fst kwargs) then (Inl TypeError, w)
      else if thread_pool w = None then call_async func args kwargs w
      else run_in_executor (if kwargs \<noteq> [] then partial func kwargs else (func, [])) args w)"

section \<open>Loading a model\<close>

text \<open>
  \<^verbatim>\<open>_load\<close> (lines 172-189). The \<^verbatim>\<open>except\<close> clause catches exactly the four classes of
  \<open>retryable\<close>. The result is the outcome (\<open>None\<close>: the model is returned) and the handle
  as the calls left it.
\<close>

definition retryable :: "exn \<Rightarrow> bool" where
  "retryable e = (e = OSError \<or> e = InvalidProtobuf \<or> e = BadZipFile \<or> e = NoSuchFile)"

definition u_load :: "'a model \<Rightarrow> exn option \<times> 'a model" where
  "u_load model =
     (if loaded model then (None, model)
      else
        (case (if \<not> loaded model then load model else (None, model)) of
           (None, model') \<Rightarrow> (None, model')
         | (Some e, model') \<Rightarrow>
             if retryable e then load (clear_cache model') else (Some e, model')))"

section \<open>The endpoints\<close>

text \<open>
  \<^verbatim>\<open>ORJSONResponse(content)\<close> serialises its content when it is built. The serialiser
  knows \<^verbatim>\<open>None\<close>, strings, integers, lists and numpy arrays; anything else, a coroutine
  object among them, is its encoding error, a TypeError.
\<close>

definition ORJSONResponse :: "'a pyval \<Rightarrow> exn + 'a pyval" where
  "ORJSONResponse content =
     (case content of
        PCoroutine f args kwargs \<Rightarrow> Inl TypeError
      | PIndex idx \<Rightarrow> Inl TypeError
      | PBytes bytes \<Rightarrow> Inl TypeError
      | _ \<Rightarrow> Inr content)"

text \<open>
  \<^verbatim>\<open>create\<close> (lines 150-161). Line 161 is \<^verbatim>\<open>vector_stores[index_name] = await run(_create)\<close>:
  the dispatcher is given the helper and no argument for it.
\<close>

definition create ::
  "string \<Rightarrow> string list \<Rightarrow> 'a ndarray \<Rightarrow> 'a world \<Rightarrow> (exn + 'a pyval) \<times> 'a world" where
  "create index_name embedding_ids embeddings w =
     (case shape_at embeddings 0 of
        Inl e \<Rightarrow> (Inl e, w)
      | Inr n \<Rightarrow>
          if n \<noteq> length embedding_ids then (Inl (HTTPException 400), w)
          else
            (case run u_create [] [] w of
               (Inl e, w') \<Rightarrow> (Inl e, w')
             | (Inr mapped_index, w') \<Rightarrow>
                 (Inr PNone,
                  w'\<lparr>vector_stores := (vector_stores w')(index_name \<mapsto> mapped_index)\<rparr>)))"

text \<open>
  \<^verbatim>\<open>add\<close> (lines 138-147); \<^verbatim>\<open>or\<close> does not read the stored object when the name is
  unknown, and \<^verbatim>\<open>.d\<close> of an object that is no index is an AttributeError. What
  \<^verbatim>\<open>run(_add, ...)\<close> returns is dropped, and the endpoint returns \<^verbatim>\<open>None\<close>.
\<close>

definition add ::
  "string \<Rightarrow> string list \<Rightarrow> 'a ndarray \<Rightarrow> 'a world \<Rightarrow> (exn + 'a pyval) \<times> 'a world" where
  "add index_name embedding_ids embeddings w =
     (case vector_stores w index_name of
        None \<Rightarrow> create index_name embedding_ids embeddings w
      | Some (PIndex idx) \<Rightarrow>
          (case shape_at embeddings 1 of
             Inl e \<Rightarrow> (Inl e, w)
           | Inr c \<Rightarrow>
               if d idx \<noteq> c then create index_name embedding_ids embeddings w
               else
                 (case run u_add [PStr index_name, PStrList embedding_ids, PArray embeddings] [] w of
                    (Inl e, w') \<Rightarrow> (Inl e, w')
                  | (Inr _, w') \<Rightarrow> (Inr PNone, w')))
      | Some _ \<Rightarrow> (Inl AttributeError, w))"

text \<open>
  \<^verbatim>\<open>search\<close> (lines 128-135); \<^verbatim>\<open>k\<close> is a query parameter, any integer, 10 by default.
  The response is built from what \<^verbatim>\<open>run(_search, ...)\<close> returned.
\<close>

definition search ::
  "externals \<Rightarrow> string \<Rightarrow> 'a ndarray \<Rightarrow> int \<Rightarrow> 'a world \<Rightarrow> (exn + 'a pyval) \<times> 'a world" where
  "search X index_name embeddings k w =
     (case vector_stores w index_name of
        None \<Rightarrow> (Inl (HTTPException 404), w)
      | Some (PIndex idx) \<Rightarrow>
          (case shape_at embeddings 1 of
             Inl e \<Rightarrow> (Inl e, w)
           | Inr c \<Rightarrow>
               if d idx \<noteq> c then (Inl (HTTPException 404), w)
               else
                 (case run u_search [PStr index_name, PArray embeddings, PInt k] [] w of
                    (Inl e, w') \<Rightarrow> (Inl e, w')
                  | (Inr outputs, w') \<Rightarrow>
                      (case ORJSONResponse outputs of
                         Inl e \<Rightarrow> (Inl e, w')
                       | Inr response \<Rightarrow> (Inr response, w'))))
      | Some _ \<Rightarrow> (Inl AttributeError, w))"

text \<open>
  The request as FastAPI serves it: \<^verbatim>\<open>Depends(validate_embeddings)\<close> validates the body's
  embeddings before the endpoint runs.
\<close>

definition search_request ::
  "externals \<Rightarrow> string \<Rightarrow> 'a ndarray \<Rightarrow> int \<Rightarrow> 'a world \<Rightarrow> (exn + 'a pyval) \<times> 'a world" where
  "search_request X index_name body k w =
     (case validate_embeddings body of
        Inl e \<Rightarrow> (Inl e, w)
      | Inr embeddings \<Rightarrow> search X index_name embeddings k w)"

definition add_request ::
  "string \<Rightarrow> string list \<Rightarrow> 'a ndarray \<Rightarrow> 'a world \<Rightarrow> (exn + 'a pyval) \<times> 'a world" where
  "add_request index_name embedding_ids body w =
     (case validate_embeddings body of
        Inl e \<Rightarrow> (Inl e, w)
      | Inr embeddings \<Rightarrow> add index_name embedding_ids embeddings w)"

definition create_request ::
  "string \<Rightarrow> string list \<Rightarrow> 'a ndarray \<Rightarrow> 'a world \<Rightarrow> (exn + 'a pyval) \<times> 'a world" where
  "create_request index_name embedding_ids body w =
     (case validate_embeddings body of
        Inl e \<Rightarrow> (Inl e, w)
      | Inr embeddings \<Rightarrow> create index_name embedding_ids embeddings w)"

text \<open>
  \<^verbatim>\<open>predict\<close> (lines 105-125): the choice of the model input (lines 113-118), the
  parsing of the options (lines 119-122; a JSON value that is not an object cannot be
  passed as \<^verbatim>\<open>**kwargs\<close>), the dispatch of \<^verbatim>\<open>_predict\<close> and the response.
\<close>

definition predict ::
  "externals \<Rightarrow> string \<Rightarrow> string \<Rightarrow> string \<Rightarrow> string option \<Rightarrow> nat list option \<Rightarrow> 'a world
     \<Rightarrow> (exn + 'a pyval) \<times> 'a world" where
  "predict X name ty options text_field image_file w =
     (case (case image_file of
              Some bytes \<Rightarrow> Inr (PBytes bytes)
            | None \<Rightarrow> (case text_field of Some t \<Rightarrow> Inr (PStr t) | None \<Rightarrow> Inl (HTTPException 400))) of
        Inl e \<Rightarrow> (Inl e, w)
      | Inr inputs \<Rightarrow>
          (case orjson_loads X options of
             None \<Rightarrow> (Inl (HTTPException 400), w)
           | Some (JObj kwargs) \<Rightarrow>
               (case run u_predict [PStr name, PStr ty, inputs] kwargs w of
                  (Inl e, w') \<Rightarrow> (Inl e, w')
                | (Inr outputs, w') \<Rightarrow>
                    (case ORJSONResponse outputs of
                       Inl e \<Rightarrow> (Inl e, w')
                     | Inr response \<Rightarrow> (Inr response, w')))
           | Some _ \<Rightarrow> (Inl TypeError, w)))"

text \<open>
  Lines 95-101 of \<^verbatim>\<open>pipeline\<close>: what follows the dispatch of \<^verbatim>\<open>_predict\<close>, up to the
  value of \<^verbatim>\<open>outputs\<close> that line 102 answers with.
\<close>

definition pipeline_index ::
  "string option \<Rightarrow> string option \<Rightarrow> int option \<Rightarrow> 'a pyval \<Rightarrow> 'a world
     \<Rightarrow> (exn + 'a pyval) \<times> 'a world" where
  "pipeline_index index_name embedding_id k outputs w =
     (case index_name of
        None \<Rightarrow> (Inr outputs, w)
      | Some iname \<Rightarrow>
          (case (case k of
                   None \<Rightarrow> (Inr outputs, w)
                 | Some kv \<Rightarrow>
                     if kv < 1 then (Inl (HTTPException 400), w)
                     else run u_search [PStr iname, outputs, PInt kv] [] w) of
             (Inl e, w') \<Rightarrow> (Inl e, w')
           | (Inr outputs', w') \<Rightarrow>
               (case embedding_id of
                  None \<Rightarrow> (Inr outputs', w')
                | Some eid \<Rightarrow>
                    (case run u_add [PStr iname, PStrList [eid], outputs'] [] w' of
                       (Inl e, w'') \<Rightarrow> (Inl e, w'')
                     | (Inr _, w'') \<Rightarrow> (Inr outputs', w'')))))"

text \<open>\<^verbatim>\<open>pipeline\<close> (lines 72-102).\<close>

definition pipeline ::
  "externals \<Rightarrow> string \<Rightarrow> string \<Rightarrow> string \<Rightarrow> string option \<Rightarrow> nat list option
     \<Rightarrow> string option \<Rightarrow> string option \<Rightarrow> int option \<Rightarrow> 'a world
     \<Rightarrow> (exn + 'a pyval) \<times> 'a world" where
  "pipeline X name ty options text_field image_file index_name embedding_id k w =
     (case (case image_file of
              Some bytes \<Rightarrow> Inr (PBytes bytes)
            | None \<Rightarrow> (case text_field of Some t \<Rightarrow> Inr (PStr t) | None \<Rightarrow> Inl (HTTPException 400))) of
        Inl e \<Rightarrow> (Inl e, w)
      | Inr inputs \<Rightarrow>
          (case orjson_loads X options of
             None \<Rightarrow> (Inl (HTTPException 400), w)
           | Some (JObj kwargs) \<Rightarrow>
               (case run u_predict [PStr name, PStr ty, inputs] kwargs w of
                  (Inl e, w') \<Rightarrow> (Inl e, w')
                | (Inr outputs, w') \<Rightarrow>
                    (case pipeline_index index_name embedding_id k outputs w' of
                       (Inl e, w'') \<Rightarrow> (Inl e, w'')
                     | (Inr outputs', w'') \<Rightarrow>
                         (case ORJSONResponse outputs' of
                            Inl e \<Rightarrow> (Inl e, w'')
                          | Inr response \<Rightarrow> (Inr response, w''))))
           | Some _ \<Rightarrow> (Inl TypeError, w)))"

section \<open>Sequences of requests\<close>

text \<open>
  The five endpoints as requests, and the state after a sequence of them; a failed
  request leaves whatever state it reached.
\<close>

datatype 'a request =
    PostCreate string "string list" "'a ndarray"
  | PostAdd string "string list" "'a ndarray"
  | PostSearch string "'a ndarray" int
  | PostPredict string string string "string option" "nat list option"
  | PostPipeline string string string "string option" "nat list option"
      "string option" "string option" "int option"

fun serve :: "externals \<Rightarrow> 'a request \<Rightarrow> 'a world \<Rightarrow> (exn + 'a pyval) \<times> 'a world" where
  "serve X (PostCreate index_name embedding_ids body) w =
     create_request index_name embedding_ids body w"
| "serve X (PostAdd index_name embedding_ids body) w =
     add_request index_name embedding_ids body w"
| "serve X (PostSearch index_name body k) w = search_request X index_name body k w"
| "serve X (PostPredict name ty options text_field image_file) w =
     predict X name ty options text_field image_file w"
| "serve X (PostPipeline name ty options text_field image_file index_name embedding_id k) w =
     pipeline X name ty options text_field image_file index_name embedding_id k w"

fun serve_all :: "externals \<Rightarrow> 'a request list \<Rightarrow> 'a world \<Rightarrow> 'a world" where
  "serve_all X [] w = w"
| "serve_all X (r # rs) w = serve_all X rs (snd (serve X r w))"

section \<open>Example data\<close>

text \<open>
  The process as it starts, with no index and no thread pool, and a process with the
  index \<^verbatim>\<open>foo\<close> of dimensionality 10 and a pool of four threads.
\<close>

definition empty_world :: "int world" where
  "empty_world = \<lparr>vector_stores = Map.empty, model_cache = Map.empty, thread_pool = None,
                   unawaited = []\<rparr>"

definition index_foo :: "int index" where
  "index_foo = \<lparr>d = 10, ids = [''a''], vectors = [[1, 2, 3, 4, 5, 6, 7, 8, 9, 10]]\<rparr>"

definition world_foo :: "int world" where
  "world_foo = \<lparr>vector_stores = [''foo'' \<mapsto> PIndex index_foo], model_cache = Map.empty,
                 thread_pool = Some 4, unawaited = []\<rparr>"

definition two_vectors :: "int ndarray" where
  "two_vectors = \<lparr>shape = [2, 10],
     data = [1, 2, 3, 4, 5, 6, 7, 8, 9, 10, 11, 12, 13, 14, 15, 16, 17, 18, 19, 20]\<rparr>"

definition one_vector :: "int ndarray" where
  "one_vector = \<lparr>shape = [10], data = [11, 12, 13, 14, 15, 16, 17, 18, 19, 20]\<rparr>"

definition long_vector :: "int ndarray" where
  "long_vector = \<lparr>shape = [12], data = [1, 2, 3, 4, 5, 6, 7, 8, 9, 10, 11, 12]\<rparr>"

text \<open>
  A stand-in for a model: its loads follow \<open>outcomes\<close>; it embeds an image as
  \<open>11, ..., 20\<close> and a text as \<open>21, ..., 30\<close>.
\<close>

definition demo_model :: "exn option list \<Rightarrow> string \<Rightarrow> string \<Rightarrow> kwargs \<Rightarrow> int model" where
  "demo_model outcomes name ty options =
     \<lparr>model_name = name, model_type = ty, loaded = False, load_outcomes = outcomes,
      calls = [], config = options,
      predict_impl = (\<lambda>options' inputs.
         (case inputs of
            PBytes bytes \<Rightarrow>
              Inr \<lparr>shape = [1, 10], data = [11, 12, 13, 14, 15, 16, 17, 18, 19, 20]\<rparr>
          | PStr t \<Rightarrow>
              Inr \<lparr>shape = [1, 10], data = [21, 22, 23, 24, 25, 26, 27, 28, 29, 30]\<rparr>
          | _ \<Rightarrow> Inl (ModelError ''unsupported input'')))\<rparr>"

definition demo_externals :: externals where
  "demo_externals = \<lparr>orjson_loads = (\<lambda>s. if s = ''{}'' then Some (JObj []) else None)\<rparr>"

section \<open>Properties of the validation\<close>

text \<open>
  C3. An array with exactly one axis and at least 10 elements is accepted and becomes a
  one-row two-dimensional array with the same elements; an array with exactly two axes and
  at least 10 columns is accepted as it is; an array with no axis, with three or more
  axes, or with fewer than 10 columns is refused with HTTP 400.
\<close>

theorem validate_embeddings_accepts_and_rejects:
  "(shape a = [n] \<and> 10 \<le> n \<longrightarrow>
      validate_embeddings a = Inr (a\<lparr>shape := [1, n]\<rparr>))
   \<and> (shape a = [m, n] \<and> 10 \<le> n \<longrightarrow> validate_embeddings a = Inr a)
   \<and> (length (shape a) = 0 \<or> 3 \<le> length (shape a) \<longrightarrow>
          validate_embeddings a = Inl (HTTPException 400))
   \<and> (shape a = [n] \<and> n < 10 \<longrightarrow> validate_embeddings a = Inl (HTTPException 400))
   \<and> (shape a = [m, n] \<and> n < 10 \<longrightarrow> validate_embeddings a = Inl (HTTPException 400))
   \<and> (\<forall>b. validate_embeddings a = Inr b \<longrightarrow>
          length (shape b) = 2 \<and> 10 \<le> shape b ! 1 \<and> data b = data a)"
  by (auto simp: validate_embeddings_def expand_dims0_def shape_at_def
      split: if_splits sum.splits)

theorem validate_embeddings_accepts_and_rejects_witness:
  "validate_embeddings \<lparr>shape = [10], data = [0, 1, 2, 3, 4, 5, 6, 7, 8, 9 :: int]\<rparr>
     = Inr \<lparr>shape = [1, 10], data = [0, 1, 2, 3, 4, 5, 6, 7, 8, 9]\<rparr>
   \<and> validate_embeddings \<lparr>shape = [2, 3, 4], data = replicate 24 (0 :: int)\<rparr>
     = Inl (HTTPException 400)
   \<and> validate_embeddings \<lparr>shape = [2, 9], data = replicate 18 (0 :: int)\<rparr>
     = Inl (HTTPException 400)"
  using validate_embeddings_accepts_and_rejects
    [of "\<lparr>shape = [10], data = [0, 1, 2, 3, 4, 5, 6, 7, 8, 9 :: int]\<rparr>" 10 0]
    validate_embeddings_accepts_and_rejects
    [of "\<lparr>shape = [2, 3, 4], data = replicate 24 (0 :: int)\<rparr>" 0 0]
    validate_embeddings_accepts_and_rejects
    [of "\<lparr>shape = [2, 9], data = replicate 18 (0 :: int)\<rparr>" 9 2]
  by simp

section \<open>Loading a model\<close>

text \<open>
  C7. A model that is already loaded is returned with no call on it. When the first
  \<^verbatim>\<open>load()\<close> of an unloaded model fails with one of the four caught errors (OSError,
  InvalidProtobuf, BadZipFile, NoSuchFile), \<^verbatim>\<open>_load\<close> makes exactly the calls load,
  clear_cache, load, in this order, and its outcome is the outcome of that second load,
  whatever it is: a second failure reaches the caller, also when it is one of the four
  errors, and no third load follows. Any other error of the first load reaches the
  caller at once, and a first load that succeeds is the only call.
\<close>

theorem load_retries_once:
  "(loaded m \<longrightarrow> u_load m = (None, m))
   \<and> (\<not> loaded m \<and> load_outcomes m = Some e # rest \<and> retryable e \<longrightarrow>
        calls (snd (u_load m)) = calls m @ [Load, ClearCache, Load]
        \<and> fst (u_load m) = (case rest of [] \<Rightarrow> None | r # _ \<Rightarrow> r)
        \<and> load_outcomes (snd (u_load m)) = tl rest)
   \<and> (\<not> loaded m \<and> load_outcomes m = Some e # rest \<and> \<not> retryable e \<longrightarrow>
        u_load m = (Some e, m\<lparr>load_outcomes := rest, calls := calls m @ [Load]\<rparr>))
   \<and> (\<not> loaded m \<and> (load_outcomes m = [] \<or> hd (load_outcomes m) = None) \<longrightarrow>
        fst (u_load m) = None \<and> loaded (snd (u_load m))
        \<and> calls (snd (u_load m)) = calls m @ [Load])"
  by (auto simp: u_load_def load_def clear_cache_def split: list.splits option.splits)

theorem load_retries_once_witness:
  "fst (u_load (demo_model [Some OSError, Some BadZipFile, None] ''clip'' ''clip'' []))
     = Some BadZipFile
   \<and> calls (snd (u_load (demo_model [Some OSError, Some BadZipFile, None] ''clip'' ''clip'' [])))
     = [Load, ClearCache, Load]
   \<and> load_outcomes
       (snd (u_load (demo_model [Some OSError, Some BadZipFile, None] ''clip'' ''clip'' [])))
     = [None]"
proof -
  let ?m = "demo_model [Some OSError, Some BadZipFile, None] ''clip'' ''clip'' []"
  have unloaded: "\<not> loaded ?m" by (simp add: demo_model_def)
  have script: "load_outcomes ?m = Some OSError # [Some BadZipFile, None]"
    by (simp add: demo_model_def)
  have caught: "retryable OSError" by (simp add: retryable_def)
  have none: "calls ?m = []" by (simp add: demo_model_def)
  from load_retries_once [of ?m OSError "[Some BadZipFile, None]"] unloaded script caught
  have "calls (snd (u_load ?m)) = calls ?m @ [Load, ClearCache, Load]
        \<and> fst (u_load ?m) = (case [Some BadZipFile, None] of [] \<Rightarrow> None | r # _ \<Rightarrow> r)
        \<and> load_outcomes (snd (u_load ?m)) = tl [Some BadZipFile, None]"
    by blast
  then show ?thesis using none by simp
qed

section \<open>The dispatcher and the endpoint \<^verbatim>\<open>create\<close>\<close>

text \<open>
  Inline or on the pool, the dispatcher returns the value of the call it is given: a
  coroutine object when the arguments bind, a TypeError when they do not. It leaves the
  indices and the model cache as they are. \<^verbatim>\<open>_create\<close> is called with no argument and
  has two required parameters.
\<close>

lemma run_call:
  "''func'' \<notin> set (map fst kwargs) \<Longrightarrow> run func args kwargs w = call_async func args kwargs w"
  by (simp add: run_def run_in_executor_def partial_def)

lemma run_call0 [simp]: "run func args [] w = call_async func args [] w"
  by (simp add: run_def run_in_executor_def)

lemma create_call_fails [simp]: "call_async u_create [] [] w = (Inl TypeError, w)"
  by (simp add: call_async_def binds_def u_create_def)

lemma run_keeps:
  "vector_stores (snd (run func args kwargs w)) = vector_stores w
   \<and> model_cache (snd (run func args kwargs w)) = model_cache w
   \<and> thread_pool (snd (run func args kwargs w)) = thread_pool w"
  by (simp add: run_def run_in_executor_def partial_def call_async_def)

lemma run_result:
  "fst (run func args kwargs w) = Inl TypeError
   \<or> fst (run func args kwargs w) = Inr (PCoroutine (def_name func) args kwargs)"
  by (simp add: run_def run_in_executor_def partial_def call_async_def)

lemma create_never_stores: "snd (create index_name embedding_ids embeddings w) = w"
  by (simp add: create_def split: sum.splits)

lemma validated_shape:
  "validate_embeddings body = Inr emb \<Longrightarrow> \<exists>n c. shape emb = [n, c] \<and> 10 \<le> c"
proof -
  assume v: "validate_embeddings body = Inr emb"
  have two: "length (shape emb) = 2" and ten: "10 \<le> shape emb ! 1"
    using v
    by (auto simp: validate_embeddings_def expand_dims0_def shape_at_def
        split: if_splits sum.splits)
  from two obtain n c where "shape emb = [n, c]"
    by (auto simp: numeral_2_eq_2 length_Suc_conv)
  with ten show ?thesis by simp
qed

lemma validate_error: "validate_embeddings body = Inl e \<Longrightarrow> e = HTTPException 400"
  by (auto simp: validate_embeddings_def expand_dims0_def shape_at_def
      split: if_splits sum.splits)

lemmas demo_defs = demo_externals_def empty_world_def world_foo_def index_foo_def

lemmas call_defs = call_async_def binds_def u_predict_def u_search_def u_add_def u_create_def

section \<open>Creating an index\<close>

text \<open>
  C2. The index \<^verbatim>\<open>foo\<close> is created from the IDs \<^verbatim>\<open>a\<close>, \<^verbatim>\<open>b\<close> and two distinct
  10-dimensional vectors, then searched with one 10-dimensional vector and \<^verbatim>\<open>k = 1\<close>.
  The create request passes the count check and then fails with the TypeError of calling
  \<^verbatim>\<open>_create\<close> without its arguments; nothing is stored, and the search answers HTTP 404.
\<close>

theorem create_then_search_example:
  "create_request ''foo'' [''a'', ''b''] two_vectors empty_world = (Inl TypeError, empty_world)
   \<and> vector_stores (snd (create_request ''foo'' [''a'', ''b''] two_vectors empty_world)) ''foo''
       = None
   \<and> search_request X ''foo'' one_vector 1
        (snd (create_request ''foo'' [''a'', ''b''] two_vectors empty_world))
       = (Inl (HTTPException 404), empty_world)"
  by (simp add: create_request_def search_request_def validate_embeddings_def shape_at_def
      expand_dims0_def two_vectors_def one_vector_def create_def
      search_def empty_world_def)

section \<open>Adding to an index\<close>

text \<open>
  C5. An add request for an index that does not exist, and one for an index of another
  dimensionality, both go to \<^verbatim>\<open>create\<close> and fail there with the TypeError; the store
  is as it was, the index neither created nor recreated.
\<close>

theorem add_creates_nothing_example:
  "add_request ''foo'' [''b''] one_vector empty_world = (Inl TypeError, empty_world)
   \<and> add_request ''foo'' [''b''] long_vector world_foo = (Inl TypeError, world_foo)"
  by (simp add: add_request_def validate_embeddings_def shape_at_def
      expand_dims0_def one_vector_def long_vector_def add_def create_def
      empty_world_def world_foo_def index_foo_def)

section \<open>No request changes the indices or the model cache\<close>

text \<open>
  The only assignment to \<^verbatim>\<open>vector_stores\<close> is line 161, after the call that fails, and
  the helpers that would change an index or use a model are never awaited. So every
  request of the five endpoints leaves the indices and the model cache as they were; in a
  process that starts with no index there is never one.
\<close>

lemma ORJSONResponse_coroutine [simp]:
  "ORJSONResponse (PCoroutine f args kwargs) = Inl TypeError"
  by (simp add: ORJSONResponse_def)

lemma add_keeps:
  "vector_stores (snd (add index_name embedding_ids embeddings w)) = vector_stores w"
  by (auto simp: add_def create_never_stores run_keeps call_async_def
      split: option.splits pyval.splits sum.splits prod.splits if_splits)

lemma search_keeps:
  "vector_stores (snd (search X index_name embeddings k w)) = vector_stores w"
  by (auto simp: search_def call_async_def
      split: option.splits pyval.splits sum.splits prod.splits if_splits)

lemma run_keepsD:
  "run func args kwargs w = (r, w') \<Longrightarrow>
     vector_stores w' = vector_stores w \<and> model_cache w' = model_cache w"
  using run_keeps [of func args kwargs w] by simp

lemma pipeline_index_keepsD:
  "pipeline_index index_name embedding_id k outputs w = (r, w') \<Longrightarrow>
     vector_stores w' = vector_stores w \<and> model_cache w' = model_cache w"
  by (auto simp: pipeline_index_def call_async_def
      split: option.splits sum.splits prod.splits if_splits)

lemma predict_keeps:
  "vector_stores (snd (predict X name ty options text_field image_file w)) = vector_stores w
   \<and> model_cache (snd (predict X name ty options text_field image_file w)) = model_cache w"
  by (auto simp: predict_def
      split: option.splits sum.splits prod.splits json.splits dest!: run_keepsD)

lemma pipeline_keeps:
  "vector_stores (snd (pipeline X name ty options text_field image_file index_name
      embedding_id k w)) = vector_stores w
   \<and> model_cache (snd (pipeline X name ty options text_field image_file index_name
      embedding_id k w)) = model_cache w"
  by (auto simp: pipeline_def
      split: option.splits sum.splits prod.splits json.splits
      dest!: run_keepsD pipeline_index_keepsD)

lemma serve_keeps: "vector_stores (snd (serve X r w)) = vector_stores w"
proof (cases r)
  case (PostCreate index_name embedding_ids body)
  then show ?thesis by (simp add: create_request_def create_never_stores split: sum.splits)
next
  case (PostAdd index_name embedding_ids body)
  then show ?thesis by (simp add: add_request_def add_keeps split: sum.splits)
next
  case (PostSearch index_name body k)
  then show ?thesis by (simp add: search_request_def search_keeps split: sum.splits)
next
  case (PostPredict name ty options text_field image_file)
  then show ?thesis by (simp add: predict_keeps)
next
  case (PostPipeline name ty options text_field image_file index_name embedding_id k)
  then show ?thesis by (simp add: pipeline_keeps)
qed

lemma serve_all_keeps: "vector_stores (serve_all X rs w) = vector_stores w"
  by (induction rs arbitrary: w) (simp_all add: serve_keeps)

text \<open>
  C6. In every state that a process starting with no index reaches by serving requests,
  a create request and an add request whose number of IDs differs from the number of
  rows of the validated embeddings are answered with HTTP 400, and the state is as it
  was. A create request whose counts match passes this check (it then fails at line 161
  with the TypeError). Embeddings that fail the validation are answered with HTTP 400
  as well.
\<close>

theorem mismatched_counts_answer_400:
  assumes "vector_stores w0 = Map.empty"
  shows "(\<forall>emb. validate_embeddings body = Inr emb \<and> shape emb ! 0 \<noteq> length embedding_ids \<longrightarrow>
            create_request index_name embedding_ids body w = (Inl (HTTPException 400), w)
            \<and> add_request index_name embedding_ids body (serve_all X rs w0)
                = (Inl (HTTPException 400), serve_all X rs w0))
       \<and> (\<forall>emb. validate_embeddings body = Inr emb \<and> shape emb ! 0 = length embedding_ids \<longrightarrow>
            create_request index_name embedding_ids body w = (Inl TypeError, w))
       \<and> (\<forall>e. validate_embeddings body = Inl e \<longrightarrow>
            e = HTTPException 400
            \<and> create_request index_name embedding_ids body w = (Inl e, w)
            \<and> add_request index_name embedding_ids body (serve_all X rs w0)
                = (Inl e, serve_all X rs w0))"
proof -
  have empty: "vector_stores (serve_all X rs w0) index_name = None"
    using assms by (simp add: serve_all_keeps)
  have count: "\<And>emb. validate_embeddings body = Inr emb \<Longrightarrow> shape_at emb 0 = Inr (shape emb ! 0)"
    using validated_shape by (fastforce simp: shape_at_def)
  have A: "\<forall>emb. validate_embeddings body = Inr emb \<and> shape emb ! 0 \<noteq> length embedding_ids \<longrightarrow>
            create_request index_name embedding_ids body w = (Inl (HTTPException 400), w)
            \<and> add_request index_name embedding_ids body (serve_all X rs w0)
                = (Inl (HTTPException 400), serve_all X rs w0)"
    using empty count by (simp add: create_request_def add_request_def add_def create_def)
  have B: "\<forall>emb. validate_embeddings body = Inr emb \<and> shape emb ! 0 = length embedding_ids \<longrightarrow>
            create_request index_name embedding_ids body w = (Inl TypeError, w)"
    using count by (simp add: create_request_def create_def)
  have C: "\<forall>e. validate_embeddings body = Inl e \<longrightarrow>
            e = HTTPException 400
            \<and> create_request index_name embedding_ids body w = (Inl e, w)
            \<and> add_request index_name embedding_ids body (serve_all X rs w0)
                = (Inl e, serve_all X rs w0)"
    by (auto simp: create_request_def add_request_def dest: validate_error)
  show ?thesis using A B C by simp
qed

theorem mismatched_counts_answer_400_witness:
  "create_request ''foo'' [''b'', ''c''] one_vector empty_world
     = (Inl (HTTPException 400), empty_world)
   \<and> add_request ''foo'' [''b'', ''c''] one_vector
       (serve_all demo_externals
          [PostCreate ''foo'' [''a'', ''b''] two_vectors, PostAdd ''foo'' [''b''] one_vector]
          empty_world)
     = (Inl (HTTPException 400), empty_world)
   \<and> create_request ''foo'' [''b''] one_vector empty_world = (Inl TypeError, empty_world)"
proof -
  have start: "vector_stores empty_world = Map.empty"
    by (simp add: empty_world_def)
  have v: "validate_embeddings one_vector = Inr (expand_dims0 one_vector)"
    by (simp add: validate_embeddings_def one_vector_def expand_dims0_def shape_at_def)
  have two: "shape (expand_dims0 one_vector) ! 0 \<noteq> length [''b'', ''c'']"
    and one: "shape (expand_dims0 one_vector) ! 0 = length [''b'']"
    by (simp_all add: one_vector_def expand_dims0_def)
  have after: "serve_all demo_externals
      [PostCreate ''foo'' [''a'', ''b''] two_vectors, PostAdd ''foo'' [''b''] one_vector]
      empty_world = empty_world"
    by (simp add: create_request_def add_request_def validate_embeddings_def shape_at_def
        expand_dims0_def two_vectors_def one_vector_def add_def create_def empty_world_def)
  note inst = mismatched_counts_answer_400 [OF start, of one_vector _ "''foo''" empty_world
      demo_externals
      "[PostCreate ''foo'' [''a'', ''b''] two_vectors, PostAdd ''foo'' [''b''] one_vector]"]
  have A: "create_request ''foo'' [''b'', ''c''] one_vector empty_world
       = (Inl (HTTPException 400), empty_world)
     \<and> add_request ''foo'' [''b'', ''c''] one_vector
         (serve_all demo_externals
          [PostCreate ''foo'' [''a'', ''b''] two_vectors, PostAdd ''foo'' [''b''] one_vector]
          empty_world)
       = (Inl (HTTPException 400), serve_all demo_externals
          [PostCreate ''foo'' [''a'', ''b''] two_vectors, PostAdd ''foo'' [''b''] one_vector]
          empty_world)"
    using inst [of "[''b'', ''c'']", THEN conjunct1, rule_format, of "expand_dims0 one_vector"]
      v two by simp
  have B: "create_request ''foo'' [''b''] one_vector empty_world = (Inl TypeError, empty_world)"
    using inst [of "[''b'']", THEN conjunct2, THEN conjunct1, rule_format,
        of "expand_dims0 one_vector"] v one by simp
  show ?thesis using A B after by simp
qed

section \<open>Searching an index\<close>


lemma search_not_400: "fst (search X index_name embeddings k w) \<noteq> Inl (HTTPException 400)"
  by (auto simp: search_def call_async_def shape_at_def
      split: option.splits pyval.splits sum.splits prod.splits if_splits)


text \<open>
  C9. With \<^verbatim>\<open>k = 0\<close> on a process with no index the search endpoint answers HTTP 404;
  on no state and for no \<^verbatim>\<open>k\<close> does the endpoint behind the validation answer HTTP 400,
  having no check of \<^verbatim>\<open>k\<close>. \<^verbatim>\<open>pipeline\<close> checks \<^verbatim>\<open>k\<close> and answers HTTP 400, after
  the coroutine of \<^verbatim>\<open>_predict\<close> was created and without it being run.
\<close>

theorem search_nonpositive_k_example:
  "search_request X ''foo'' one_vector 0 empty_world = (Inl (HTTPException 404), empty_world)
   \<and> fst (search X index_name embeddings k w) \<noteq> Inl (HTTPException 400)
   \<and> pipeline demo_externals ''clip'' ''clip'' ''{}'' (Some ''hello'') None
        (Some ''foo'') None (Some 0) empty_world
       = (Inl (HTTPException 400),
          empty_world\<lparr>unawaited :=
            [PCoroutine ''_predict'' [PStr ''clip'', PStr ''clip'', PStr ''hello''] []]\<rparr>)"
proof -
  have A: "search_request X ''foo'' one_vector 0 empty_world
      = (Inl (HTTPException 404), empty_world)"
    by (simp add: search_request_def validate_embeddings_def shape_at_def expand_dims0_def
        one_vector_def search_def empty_world_def)
  have C: "fst (search X index_name embeddings k w) \<noteq> Inl (HTTPException 400)"
    by (rule search_not_400)
  have D: "pipeline demo_externals ''clip'' ''clip'' ''{}'' (Some ''hello'') None
        (Some ''foo'') None (Some 0) empty_world
       = (Inl (HTTPException 400),
          empty_world\<lparr>unawaited :=
            [PCoroutine ''_predict'' [PStr ''clip'', PStr ''clip'', PStr ''hello''] []]\<rparr>)"
    by (simp add: pipeline_def pipeline_index_def call_defs demo_defs)
  show ?thesis using A C D by simp
qed

section \<open>The pipeline and the prediction\<close>

lemma run_resultD:
  "run func args kwargs w = (Inr v, w') \<Longrightarrow> v = PCoroutine (def_name func) args kwargs"
  using run_result [of func args kwargs w] by auto

lemma pipeline_index_resultD:
  "pipeline_index index_name embedding_id k (PCoroutine f args kwargs) w = (Inr v, w')
     \<Longrightarrow> \<exists>f' args' kwargs'. v = PCoroutine f' args' kwargs'"
  by (auto simp: pipeline_index_def call_async_def
      split: option.splits sum.splits prod.splits if_splits)


lemma pipeline_never_answers:
  "fst (pipeline X name ty options text_field image_file index_name embedding_id k w) \<noteq> Inr v"
  by (auto simp: pipeline_def
      split: option.splits sum.splits prod.splits json.splits
      dest!: run_resultD pipeline_index_resultD)

text \<open>
  C1. A pipeline request with the text \<^verbatim>\<open>hello\<close>, the index \<^verbatim>\<open>foo\<close>, the embedding ID
  \<^verbatim>\<open>x\<close> and \<^verbatim>\<open>k = 10\<close>, on the process as it starts: the coroutines of \<^verbatim>\<open>_predict\<close>,
  \<^verbatim>\<open>_search\<close> and \<^verbatim>\<open>_add\<close> are created and none is awaited, \<^verbatim>\<open>_search\<close> is given the
  coroutine of \<^verbatim>\<open>_predict\<close> as its embeddings and \<^verbatim>\<open>_add\<close> the coroutine of
  \<^verbatim>\<open>_search\<close>, and the response fails with a TypeError. For every pipeline request the
  response is an error, and the model cache and the indices are as they were: no model
  is fetched, loaded or run, nothing is searched and nothing is added.
\<close>

theorem pipeline_runs_no_helper_example:
  "pipeline demo_externals ''clip'' ''clip'' ''{}'' (Some ''hello'') None
      (Some ''foo'') (Some ''x'') (Some 10) empty_world
     = (Inl TypeError,
        empty_world\<lparr>unawaited :=
          [PCoroutine ''_predict'' [PStr ''clip'', PStr ''clip'', PStr ''hello''] [],
           PCoroutine ''_search''
             [PStr ''foo'',
              PCoroutine ''_predict'' [PStr ''clip'', PStr ''clip'', PStr ''hello''] [],
              PInt 10] [],
           PCoroutine ''_add''
             [PStr ''foo'', PStrList [''x''],
              PCoroutine ''_search''
                [PStr ''foo'',
                 PCoroutine ''_predict'' [PStr ''clip'', PStr ''clip'', PStr ''hello''] [],
                 PInt 10] []] []]\<rparr>)
   \<and> (\<forall>v. fst (pipeline X name ty options text_field image_file index_name embedding_id k w)
          \<noteq> Inr v)
   \<and> model_cache (snd (pipeline X name ty options text_field image_file index_name
        embedding_id k w)) = model_cache w
   \<and> vector_stores (snd (pipeline X name ty options text_field image_file index_name
        embedding_id k w)) = vector_stores w"
proof -
  have example: "pipeline demo_externals ''clip'' ''clip'' ''{}'' (Some ''hello'') None
      (Some ''foo'') (Some ''x'') (Some 10) empty_world
     = (Inl TypeError,
        empty_world\<lparr>unawaited :=
          [PCoroutine ''_predict'' [PStr ''clip'', PStr ''clip'', PStr ''hello''] [],
           PCoroutine ''_search''
             [PStr ''foo'',
              PCoroutine ''_predict'' [PStr ''clip'', PStr ''clip'', PStr ''hello''] [],
              PInt 10] [],
           PCoroutine ''_add''
             [PStr ''foo'', PStrList [''x''],
              PCoroutine ''_search''
                [PStr ''foo'',
                 PCoroutine ''_predict'' [PStr ''clip'', PStr ''clip'', PStr ''hello''] [],
                 PInt 10] []] []]\<rparr>)"
    by (simp add: pipeline_def pipeline_index_def call_defs demo_defs)
  show ?thesis
    using example by (simp add: pipeline_never_answers pipeline_keeps)
qed


end
